theory Spec2Isabelle
  imports Main "HOL-Library.Word"
begin

section \<open>JavaScript values used by the component\<close>

text \<open>
  A JavaScript string is a sequence of 16-bit code units. Literals of the source are
  written \<open>js ''...''\<close>; code units beyond ASCII are given by their number.
\<close>

type_synonym jschar = "16 word"
type_synonym jsstring = "jschar list"
type_synonym timestamp = int

definition js :: "string \<Rightarrow> jsstring" where
  "js s = map of_char s"

text \<open>
  \<open>a || b\<close> where \<open>a\<close> is a string or undefined: the empty string is falsy, like undefined.
  \<open>or_str\<close> is the case where \<open>b\<close> is a string, \<open>or_undef\<close> the case where \<open>b\<close> may be
  undefined too.
\<close>

definition or_str :: "jsstring option \<Rightarrow> jsstring \<Rightarrow> jsstring" where
  "or_str a b = (case a of None \<Rightarrow> b | Some x \<Rightarrow> if x = [] then b else x)"

definition or_undef :: "jsstring option \<Rightarrow> jsstring option \<Rightarrow> jsstring option" where
  "or_undef a b = (case a of None \<Rightarrow> b | Some x \<Rightarrow> if x = [] then b else Some x)"

text \<open>
  \<open>String.prototype.trim\<close> removes WhiteSpace and LineTerminator code points at both ends.
  All of them lie in the basic plane, so each is one code unit.
\<close>

definition isWhiteSpace :: "jschar \<Rightarrow> bool" where
  "isWhiteSpace c \<longleftrightarrow>
     c = 0x0009 \<or> c = 0x000A \<or> c = 0x000B \<or> c = 0x000C \<or> c = 0x000D \<or> c = 0x0020 \<or>
     c = 0x00A0 \<or> c = 0x1680 \<or> (0x2000 \<le> c \<and> c \<le> 0x200A) \<or> c = 0x2028 \<or> c = 0x2029 \<or>
     c = 0x202F \<or> c = 0x205F \<or> c = 0x3000 \<or> c = 0xFEFF"

definition trim :: "jsstring \<Rightarrow> jsstring" where
  "trim s = rev (dropWhile isWhiteSpace (rev (dropWhile isWhiteSpace s)))"

text \<open>\<open>Array.prototype.join\<close> on an array of strings.\<close>

definition join :: "jsstring \<Rightarrow> jsstring list \<Rightarrow> jsstring" where
  "join sep xs = (case xs of [] \<Rightarrow> [] | x # rest \<Rightarrow> x @ concat (map (\<lambda>y. sep @ y) rest))"

subsection \<open>Plain objects used as records\<close>

text \<open>
  A plain object is the list of its own properties in the order of their creation, each key
  once. Enumeration (\<open>Object.entries\<close>, \<open>Object.keys\<close>, spread, \<open>JSON.stringify\<close>) follows
  the own-property order of the language: keys that are array indices (canonical decimal
  numerals below \<open>2^32 - 1\<close>) in ascending numeric order, then the other keys in creation
  order.
\<close>

type_synonym 'v obj = "(jsstring \<times> 'v) list"

definition isDigit :: "jschar \<Rightarrow> bool" where
  "isDigit c \<longleftrightarrow> 0x30 \<le> c \<and> c \<le> 0x39"

definition numericValue :: "jsstring \<Rightarrow> nat" where
  "numericValue s = foldl (\<lambda>n c. 10 * n + (unat c - 48)) 0 s"

definition isArrayIndex :: "jsstring \<Rightarrow> bool" where
  "isArrayIndex s =
     (case s of
        [] \<Rightarrow> False
      | c # cs \<Rightarrow> list_all isDigit s \<and> (c = 0x30 \<longrightarrow> cs = []) \<and> numericValue s < 4294967295)"

definition Object_entries :: "'v obj \<Rightarrow> (jsstring \<times> 'v) list" where
  "Object_entries ob =
     sort_key (\<lambda>p. numericValue (fst p)) (filter (\<lambda>p. isArrayIndex (fst p)) ob)
     @ filter (\<lambda>p. \<not> isArrayIndex (fst p)) ob"

definition Object_keys :: "'v obj \<Rightarrow> jsstring list" where
  "Object_keys ob = map fst (Object_entries ob)"

text \<open>Defining an own property: an existing key keeps its place, a new key goes last.\<close>

fun defineProperty :: "'v obj \<Rightarrow> jsstring \<Rightarrow> 'v \<Rightarrow> 'v obj" where
  "defineProperty [] k v = [(k, v)]"
| "defineProperty ((k', v') # rest) k v =
     (if k' = k then (k', v) # rest else (k', v') # defineProperty rest k v)"

text \<open>
  The assignment \<open>o[k] = v\<close> of a string \<open>v\<close> on an object created by the literal \<open>{}\<close>.
  The key \<open>__proto__\<close> reaches the accessor of \<open>Object.prototype\<close>, whose setter ignores a
  value that is neither an object nor null: no own property is created.
\<close>

definition assignString :: "jsstring obj \<Rightarrow> jsstring \<Rightarrow> jsstring \<Rightarrow> jsstring obj" where
  "assignString ob k v = (if k = js ''__proto__'' then ob else defineProperty ob k v)"

text \<open>The object literal \<open>{...src}\<close>: the own properties of \<open>src\<close>, defined in enumeration order.\<close>

definition spread :: "'v obj \<Rightarrow> 'v obj" where
  "spread src = foldl (\<lambda>acc p. defineProperty acc (fst p) (snd p)) [] (Object_entries src)"

subsection \<open>JSON text of a record of strings\<close>

definition isLeadingSurrogate :: "jschar \<Rightarrow> bool" where
  "isLeadingSurrogate c \<longleftrightarrow> 0xD800 \<le> c \<and> c \<le> 0xDBFF"

definition isTrailingSurrogate :: "jschar \<Rightarrow> bool" where
  "isTrailingSurrogate c \<longleftrightarrow> 0xDC00 \<le> c \<and> c \<le> 0xDFFF"

definition hexDigit :: "jschar \<Rightarrow> jschar" where
  "hexDigit d = (if d < 10 then 0x30 + d else 0x61 + (d - 10))"

definition UnicodeEscape :: "jschar \<Rightarrow> jsstring" where
  "UnicodeEscape c =
     [0x5C, 0x75, hexDigit (drop_bit 12 c), hexDigit (take_bit 4 (drop_bit 8 c)),
      hexDigit (take_bit 4 (drop_bit 4 c)), hexDigit (take_bit 4 c)]"

fun quoteUnits :: "jsstring \<Rightarrow> jsstring" where
  "quoteUnits [] = []"
| "quoteUnits (c # cs) =
     (if c = 0x08 then [0x5C, 0x62] @ quoteUnits cs
      else if c = 0x09 then [0x5C, 0x74] @ quoteUnits cs
      else if c = 0x0A then [0x5C, 0x6E] @ quoteUnits cs
      else if c = 0x0C then [0x5C, 0x66] @ quoteUnits cs
      else if c = 0x0D then [0x5C, 0x72] @ quoteUnits cs
      else if c = 0x22 then [0x5C, 0x22] @ quoteUnits cs
      else if c = 0x5C then [0x5C, 0x5C] @ quoteUnits cs
      else if c < 0x20 then UnicodeEscape c @ quoteUnits cs
      else if isLeadingSurrogate c then
        (case cs of
           [] \<Rightarrow> UnicodeEscape c
         | d # ds \<Rightarrow>
             if isTrailingSurrogate d then c # d # quoteUnits ds
             else UnicodeEscape c @ quoteUnits cs)
      else if isTrailingSurrogate c then UnicodeEscape c @ quoteUnits cs
      else c # quoteUnits cs)"

definition QuoteJSONString :: "jsstring \<Rightarrow> jsstring" where
  "QuoteJSONString s = [0x22] @ quoteUnits s @ [0x22]"

text \<open>\<open>JSON.stringify(values, null, 2)\<close> for an object whose property values are strings.\<close>

definition JSON_stringify_pretty :: "jsstring obj \<Rightarrow> jsstring" where
  "JSON_stringify_pretty ob =
     (let partial = map (\<lambda>p. QuoteJSONString (fst p) @ js '': '' @ QuoteJSONString (snd p))
                        (Object_entries ob)
      in if partial = [] then js ''{}''
         else js ''{\<newline>  '' @ join (js '',\<newline>  '') partial @ js ''\<newline>}'')"

section \<open>Data model of the component\<close>

text \<open>
  Modelled from the spec: the type declarations \<open>A2UIComponent\<close> and \<open>ChatMessage\<close>
  (\<open>types/a2ui.types\<close>) and \<open>FormChangeEvent\<close> (the renderer component) are not among the
  sources. Their shape follows the data model of the specification and the way the component
  builds and reads them: a node has a type tag, optional props (string, boolean or number
  valued) and optional children; a turn has a role, a timestamp and the optional fields
  \<open>content\<close>, \<open>promptContent\<close> and \<open>ui\<close>. The component never computes with a number, so
  numbers stay an opaque type.
\<close>

typedecl jsnumber

datatype prim = PString jsstring | PBool bool | PNumber jsnumber

datatype A2UIComponent =
  A2UIComponent (type: jsstring) (props: "(jsstring \<times> prim) list option")
    (children: "A2UIComponent list option")

datatype role = User | Model

record ChatMessage =
  role :: role
  content :: "jsstring option"
  promptContent :: "jsstring option"
  ui :: "A2UIComponent option"
  timestamp :: timestamp

text \<open>A live field state \<open>{ value, isValid }\<close> and the event that reports one.\<close>

record FieldData =
  val :: jsstring
  isValid :: bool

datatype FormChangeEvent =
  FormChangeEvent (event_id: jsstring) (event_value: jsstring) (event_isValid: bool)

text \<open>
  The values of the configuration form, which are also the fields of the \<open>config\<close> object
  handed to the agent client, and the form itself: its values and whether
  \<open>markAllAsTouched\<close> has run.
\<close>

record AgentConfig =
  endpoint :: jsstring
  api_key :: jsstring
  deployment_name :: jsstring
  api_version :: jsstring
  mcp_servers :: jsstring

record ConfigForm =
  form_value :: AgentConfig
  touched :: bool

datatype ConnectionStatus = disconnected | connected | error

text \<open>One entry of the history handed to the agent client: \<open>{ role, parts: [{ text }] }\<close>.\<close>

record Part =
  part_text :: "jsstring option"

record HistoryEntry =
  entry_role :: role
  parts :: "Part list"

text \<open>The signals of the component.\<close>

record AppComponent =
  messages :: "ChatMessage list"
  userInput :: jsstring
  isLoading :: bool
  isSettingsOpen :: bool
  isConnecting :: bool
  connectionStatus :: ConnectionStatus
  activeFormData :: "FieldData obj"
  configForm :: ConfigForm

text \<open>
  A call of the agent client that the component has issued and is awaiting:
  \<open>connect(config)\<close> or \<open>generateResponse(textToSend, history)\<close>.
\<close>

datatype AgentCall =
  Connect AgentConfig
| GenerateResponse jsstring "HistoryEntry list"

section \<open>Operations of the component\<close>

text \<open>
  \<open>JSON.stringify\<close> of a UI tree is the runtime's; it is the parameter \<open>stringify\<close> below.
  \<open>new Date()\<close> is the parameter \<open>now\<close>. An asynchronous method is two functions: the part
  that runs up to the \<open>await\<close>, which returns the state and the agent call it awaits (None
  when it returned before any call), and the part that runs when the call has settled.
\<close>

definition addSystemMessage :: "A2UIComponent \<Rightarrow> timestamp \<Rightarrow> AppComponent \<Rightarrow> AppComponent" where
  "addSystemMessage u now s =
     s\<lparr>messages := messages s @
          [\<lparr>role = Model, content = None, promptContent = None, ui = Some u, timestamp = now\<rparr>]\<rparr>"

definition text_node :: "(jsstring \<times> prim) list \<Rightarrow> A2UIComponent" where
  "text_node ps = A2UIComponent (js ''text'') (Some ps) None"

definition button_node :: "(jsstring \<times> prim) list \<Rightarrow> A2UIComponent" where
  "button_node ps = A2UIComponent (js ''button'') (Some ps) None"

definition greeting :: A2UIComponent where
  "greeting =
     A2UIComponent (js ''container'')
       (Some [(js ''direction'', PString (js ''col'')), (js ''gap'', PString (js ''md''))])
       (Some [
         A2UIComponent (js ''card'') (Some [(js ''variant'', PString (js ''filled''))])
           (Some [
             A2UIComponent (js ''container'')
               (Some [(js ''direction'', PString (js ''row'')),
                      (js ''align'', PString (js ''center'')), (js ''gap'', PString (js ''md''))])
               (Some [
                 text_node [(js ''content'', PString [0x2728]), (js ''size'', PString (js ''xl''))],
                 text_node [(js ''content'', PString (js ''A2UI Interface Ready'')),
                            (js ''size'', PString (js ''lg'')), (js ''bold'', PBool True),
                            (js ''color'', PString (js ''text-white''))]]),
             A2UIComponent (js ''divider'') None None,
             text_node [(js ''content'',
                           PString (js ''Please configure your Azure OpenAI settings to begin.'')),
                        (js ''size'', PString (js ''md''))],
             A2UIComponent (js ''container'')
               (Some [(js ''direction'', PString (js ''row'')), (js ''gap'', PString (js ''sm''))])
               (Some [
                 button_node [(js ''label'', PString (js ''Configure Agent'')),
                              (js ''action'', PString (js ''open_settings'')),
                              (js ''variant'', PString (js ''primary''))],
                 button_node [(js ''label'', PString (js ''ServiceNow Demo'')),
                              (js ''action'', PString (js ''demo_servicenow'')),
                              (js ''variant'', PString (js ''secondary''))]])])])"

definition initial :: AppComponent where
  "initial =
     \<lparr>messages = [], userInput = [], isLoading = False, isSettingsOpen = False,
      isConnecting = False, connectionStatus = disconnected, activeFormData = [],
      configForm =
        \<lparr>form_value =
           \<lparr>endpoint = [], api_key = [], deployment_name = js ''gpt-4o'',
            api_version = js ''2024-05-01-preview'', mcp_servers = []\<rparr>,
         touched = False\<rparr>\<rparr>"

definition constructor :: "timestamp \<Rightarrow> AppComponent" where
  "constructor now = addSystemMessage greeting now initial"

definition toggleSettings :: "AppComponent \<Rightarrow> AppComponent" where
  "toggleSettings s = s\<lparr>isSettingsOpen := \<not> isSettingsOpen s\<rparr>"

subsection \<open>connectAgent\<close>

text \<open>\<open>Validators.required\<close> rejects the empty string; the form is invalid when a control is.\<close>

definition invalid :: "ConfigForm \<Rightarrow> bool" where
  "invalid f \<longleftrightarrow>
     endpoint (form_value f) = [] \<or> api_key (form_value f) = [] \<or>
     deployment_name (form_value f) = [] \<or> api_version (form_value f) = []"

definition markAllAsTouched :: "ConfigForm \<Rightarrow> ConfigForm" where
  "markAllAsTouched f = f\<lparr>touched := True\<rparr>"

definition connected_message :: "AgentConfig \<Rightarrow> A2UIComponent" where
  "connected_message config =
     A2UIComponent (js ''container'')
       (Some [(js ''direction'', PString (js ''col'')), (js ''gap'', PString (js ''sm''))])
       (Some [
         A2UIComponent (js ''badge'')
           (Some [(js ''label'', PString (js ''Connected'')),
                  (js ''variant'', PString (js ''success''))]) None,
         text_node [(js ''content'',
                       PString (js ''Successfully connected to '' @ deployment_name config))]])"

definition connectAgent_call :: "AppComponent \<Rightarrow> AppComponent \<times> AgentCall option" where
  "connectAgent_call s =
     (if invalid (configForm s) then (s\<lparr>configForm := markAllAsTouched (configForm s)\<rparr>, None)
      else
        let s1 = s\<lparr>isConnecting := True\<rparr>;
            s2 = s1\<lparr>connectionStatus := disconnected\<rparr>;
            config = \<lparr>endpoint = endpoint (form_value (configForm s2)),
                      api_key = api_key (form_value (configForm s2)),
                      deployment_name = deployment_name (form_value (configForm s2)),
                      api_version = api_version (form_value (configForm s2)),
                      mcp_servers = or_str (Some (mcp_servers (form_value (configForm s2)))) []\<rparr>
        in (s2, Some (Connect config)))"

text \<open>The rest of \<open>connectAgent\<close>; \<open>ok\<close> tells whether \<open>connect(config)\<close> resolved or rejected.\<close>

definition connectAgent_settled ::
  "bool \<Rightarrow> AgentConfig \<Rightarrow> timestamp \<Rightarrow> AppComponent \<Rightarrow> AppComponent" where
  "connectAgent_settled ok config now s =
     (let s1 =
        (if ok then
           addSystemMessage (connected_message config) now
             (s\<lparr>connectionStatus := connected, isSettingsOpen := False\<rparr>)
         else s\<lparr>connectionStatus := error\<rparr>)
      in s1\<lparr>isConnecting := False\<rparr>)"

text \<open>
  A whole run of \<open>connectAgent\<close> with nothing else in between; \<open>ok\<close> is the outcome of the
  agent client's \<open>connect\<close>, should it be called.
\<close>

definition connectAgent :: "bool \<Rightarrow> timestamp \<Rightarrow> AppComponent \<Rightarrow> AppComponent" where
  "connectAgent ok now s =
     (case connectAgent_call s of
        (s1, Some (Connect config)) \<Rightarrow> connectAgent_settled ok config now s1
      | (s1, _) \<Rightarrow> s1)"

subsection \<open>sendMessage\<close>

definition history_entry :: "(A2UIComponent \<Rightarrow> jsstring) \<Rightarrow> ChatMessage \<Rightarrow> HistoryEntry" where
  "history_entry stringify m =
     \<lparr>entry_role = role m,
      parts = [\<lparr>part_text =
                  (if role m = User then or_undef (promptContent m) (content m)
                   else map_option stringify (ui m))\<rparr>]\<rparr>"

definition sendMessage_call ::
  "(A2UIComponent \<Rightarrow> jsstring) \<Rightarrow> jsstring option \<Rightarrow> jsstring option \<Rightarrow> timestamp \<Rightarrow>
     AppComponent \<Rightarrow> AppComponent \<times> AgentCall option" where
  "sendMessage_call stringify promptText displayText now s =
     (let textToSend = or_str promptText (userInput s);
          textToDisplay = or_str displayText textToSend
      in if trim textToSend = [] \<or> isLoading s then (s, None)
         else
           let history = map (history_entry stringify) (messages s);
               s1 = s\<lparr>messages := messages s @
                          [\<lparr>role = User, content = Some textToDisplay,
                            promptContent = Some textToSend, ui = None, timestamp = now\<rparr>]\<rparr>;
               s2 = s1\<lparr>userInput := []\<rparr>;
               s3 = s2\<lparr>isLoading := True\<rparr>
           in (s3, Some (GenerateResponse textToSend history)))"

text \<open>
  The rest of \<open>sendMessage\<close>; \<open>response\<close> is the tree \<open>generateResponse\<close> resolved with,
  or None when it rejected (the error goes to the console only).
\<close>

definition sendMessage_settled ::
  "A2UIComponent option \<Rightarrow> timestamp \<Rightarrow> AppComponent \<Rightarrow> AppComponent" where
  "sendMessage_settled response now s =
     (let s1 = (case response of Some uiResponse \<Rightarrow> addSystemMessage uiResponse now s | None \<Rightarrow> s)
      in s1\<lparr>isLoading := False\<rparr>)"

text \<open>
  A whole run of \<open>sendMessage\<close> with nothing else in between; \<open>response\<close> is the outcome of
  the agent client's \<open>generateResponse\<close>, should it be called.
\<close>

definition sendMessage ::
  "(A2UIComponent \<Rightarrow> jsstring) \<Rightarrow> A2UIComponent option \<Rightarrow> jsstring option \<Rightarrow>
     jsstring option \<Rightarrow> timestamp \<Rightarrow> timestamp \<Rightarrow> AppComponent \<Rightarrow> AppComponent" where
  "sendMessage stringify response promptText displayText now now' s =
     (case sendMessage_call stringify promptText displayText now s of
        (s1, Some call) \<Rightarrow> sendMessage_settled response now' s1
      | (s1, None) \<Rightarrow> s1)"

subsection \<open>Handling dynamic UI events\<close>

definition handleFormChange :: "FormChangeEvent \<Rightarrow> AppComponent \<Rightarrow> AppComponent" where
  "handleFormChange event s =
     s\<lparr>activeFormData :=
         defineProperty (spread (activeFormData s)) (event_id event)
           \<lparr>val = event_value event, isValid = event_isValid event\<rparr>\<rparr>"

text \<open>
  The body of \<open>handleUiAction\<close> up to its last statement: the state it leaves and the
  arguments \<open>(prompt, display)\<close> of the call of \<open>sendMessage\<close> it is about to make, or None
  when it returned early.
\<close>

definition handleUiAction_body ::
  "jsstring \<Rightarrow> AppComponent \<Rightarrow> AppComponent \<times> (jsstring \<times> jsstring) option" where
  "handleUiAction_body actionId s =
     (if actionId = js ''open_settings'' then (s\<lparr>isSettingsOpen := True\<rparr>, None)
      else
        let currentFormData = activeFormData s;
            invalidFields =
              map fst (filter (\<lambda>p. \<not> isValid (snd p)) (Object_entries currentFormData));
            prompt = js ''User triggered action: '' @ actionId @ js ''.'';
            display = js ''Triggered Action: '' @ actionId
        in if length (Object_keys currentFormData) > 0 then
             let values =
                   foldl (\<lambda>acc p. assignString acc (fst p) (val (snd p))) []
                     (Object_entries currentFormData);
                 prompt = prompt @ js ''\<newline>\<newline>Submitted Form Data:\<newline>''
                            @ JSON_stringify_pretty values;
                 display = display @ js '' (Submitted Data)'';
                 (prompt, display) =
                   (if length invalidFields > 0 then
                      (prompt
                         @ js ''\<newline>\<newline>Warning: The following fields have validation errors: ''
                         @ join (js '', '') invalidFields,
                       display @ js '' '' @ [0x26A0, 0xFE0F] @ js '' Invalid Fields'')
                    else (prompt, display))
             in (s\<lparr>activeFormData := []\<rparr>, Some (prompt, display))
           else
             let (prompt, display) =
                   (if actionId = js ''demo_product'' then
                      (js ''Generate a stylish product card for high-end headphones with an image, price, and buy button.'',
                       js ''Show me a product demo'')
                    else if actionId = js ''demo_list'' then
                      (js ''Create a checklist of 5 things to do for a healthy morning routine.'',
                       js ''Show me a list demo'')
                    else if actionId = js ''demo_servicenow'' then
                      (js ''Generate a Standard ServiceNow Change Request form in a SINGLE card. Include at least these 10 fields: Change Number (readonly), Requested By, State, Priority, Risk, Short Description, Description, Assignment Group, Planned Start Date, and Planned End Date. Use Dividers to separate sections like ''
                         @ [0x22] @ js ''General'' @ [0x22] @ js '', '' @ [0x22] @ js ''Schedule''
                         @ [0x22] @ js '', and '' @ [0x22] @ js ''Planning'' @ [0x22] @ js ''.'',
                       js ''Create a Standard ServiceNow Change Request'')
                    else (prompt, display))
             in (s, Some (prompt, display)))"

text \<open>
  \<open>handleUiAction\<close>: the body, then \<open>this.sendMessage(prompt, display)\<close>, which is not
  awaited: the handler returns when \<open>sendMessage\<close> reaches its \<open>await\<close> or returns.
\<close>

definition handleUiAction ::
  "(A2UIComponent \<Rightarrow> jsstring) \<Rightarrow> jsstring \<Rightarrow> timestamp \<Rightarrow> AppComponent \<Rightarrow>
     AppComponent \<times> AgentCall option" where
  "handleUiAction stringify actionId now s =
     (case handleUiAction_body actionId s of
        (s1, None) \<Rightarrow> (s1, None)
      | (s1, Some (prompt, display)) \<Rightarrow>
          sendMessage_call stringify (Some prompt) (Some display) now s1)"

section \<open>Runs of the component\<close>

text \<open>
  What can happen to the component after its construction: the template writes the free-text
  input and the configuration form, the renderer reports field changes and actions, the
  user calls the methods, and an awaited agent call settles. A run is any sequence of these
  events; a settling event is allowed at any point and with any outcome, so the runs include
  every interleaving the scheduler can produce.
\<close>

datatype event =
  SetUserInput jsstring
| SetConfigForm AgentConfig
| ToggleSettings
| ConnectAgent
| ConnectSettled bool AgentConfig timestamp
| SendMessage "jsstring option" "jsstring option" timestamp
| SendSettled "A2UIComponent option" timestamp
| HandleFormChange FormChangeEvent
| HandleUiAction jsstring timestamp

fun step :: "(A2UIComponent \<Rightarrow> jsstring) \<Rightarrow> event \<Rightarrow> AppComponent \<Rightarrow> AppComponent" where
  "step stringify (SetUserInput t) s = s\<lparr>userInput := t\<rparr>"
| "step stringify (SetConfigForm v) s = s\<lparr>configForm := (configForm s)\<lparr>form_value := v\<rparr>\<rparr>"
| "step stringify ToggleSettings s = toggleSettings s"
| "step stringify ConnectAgent s = fst (connectAgent_call s)"
| "step stringify (ConnectSettled ok config now) s = connectAgent_settled ok config now s"
| "step stringify (SendMessage promptText displayText now) s =
     fst (sendMessage_call stringify promptText displayText now s)"
| "step stringify (SendSettled response now) s = sendMessage_settled response now s"
| "step stringify (HandleFormChange ev) s = handleFormChange ev s"
| "step stringify (HandleUiAction actionId now) s = fst (handleUiAction stringify actionId now s)"

definition run :: "(A2UIComponent \<Rightarrow> jsstring) \<Rightarrow> event list \<Rightarrow> AppComponent \<Rightarrow> AppComponent" where
  "run stringify evs s = foldl (\<lambda>st ev. step stringify ev st) s evs"

section \<open>Notions used in the statements\<close>

text \<open>
  A well-formed turn: a user turn carries a non-empty \<open>promptContent\<close>, a model turn carries
  a tree.
\<close>

definition turn_ok :: "ChatMessage \<Rightarrow> bool" where
  "turn_ok m =
     (case role m of
        User \<Rightarrow> (case promptContent m of None \<Rightarrow> False | Some p \<Rightarrow> p \<noteq> [])
      | Model \<Rightarrow> ui m \<noteq> None)"

text \<open>
  The events that can precede the first call of \<open>sendMessage\<close> in a run in which no connect
  has succeeded: no send (typed or dispatched by an action), hence no settled send, and no
  successful connect.
\<close>

fun before_first_send :: "event \<Rightarrow> bool" where
  "before_first_send (SendMessage promptText displayText now) = False"
| "before_first_send (SendSettled response now) = False"
| "before_first_send (HandleUiAction actionId now) = (actionId = js ''open_settings'')"
| "before_first_send (ConnectSettled ok config now) = (\<not> ok)"
| "before_first_send ev = True"

text \<open>
  The own-property order applied to a list of keys given in creation order: array indices
  ascending, then the other keys as they come.
\<close>

definition enumeration_order :: "jsstring list \<Rightarrow> jsstring list" where
  "enumeration_order ids =
     sort_key numericValue (filter isArrayIndex ids) @ filter (\<lambda>k. \<not> isArrayIndex k) ids"

section \<open>Lemmas\<close>

subsection \<open>Strings\<close>

lemma of_char_word_eq_iff: "(of_char c :: 16 word) = of_char d \<longleftrightarrow> c = d"
proof
  assume eq: "(of_char c :: 16 word) = of_char d"
  have lt: "\<And>x. (of_char x :: nat) < 65536"
  proof -
    fix x
    have "(of_char x :: nat) mod 256 = of_char x" by simp
    then have "(of_char x :: nat) < 256" by (metis mod_less_divisor zero_less_numeral)
    then show "(of_char x :: nat) < 65536" by (rule less_trans) simp
  qed
  have "\<And>x. unat (of_char x :: 16 word) = of_char x"
  proof -
    fix x
    have "(of_char x :: 16 word) = of_nat (of_char x)" by (simp add: of_nat_of_char)
    then show "unat (of_char x :: 16 word) = of_char x"
      using lt [of x] by (simp add: unat_of_nat)
  qed
  with eq have "(of_char c :: nat) = of_char d" by metis
  then show "c = d" by simp
qed simp

lemma js_eq_iff: "js a = js b \<longleftrightarrow> a = b"
  unfolding js_def by (rule inj_map_eq_map) (simp add: inj_def of_char_word_eq_iff)

lemma js_Nil_iff: "js a = [] \<longleftrightarrow> a = []"
  by (simp add: js_def)

lemma trim_Nil: "trim [] = []"
  by (simp add: trim_def)

lemma trim_empty_iff: "trim t = [] \<longleftrightarrow> (\<forall>c\<in>set t. isWhiteSpace c)"
proof
  assume "trim t = []"
  then have blank: "\<forall>c\<in>set (dropWhile isWhiteSpace t). isWhiteSpace c"
    by (simp add: trim_def)
  have "dropWhile isWhiteSpace t = []"
  proof (rule ccontr)
    assume ne: "dropWhile isWhiteSpace t \<noteq> []"
    then have "\<not> isWhiteSpace (hd (dropWhile isWhiteSpace t))" by (rule hd_dropWhile)
    moreover have "hd (dropWhile isWhiteSpace t) \<in> set (dropWhile isWhiteSpace t)"
      using ne by simp
    ultimately show False using blank by blast
  qed
  then show "\<forall>c\<in>set t. isWhiteSpace c" by simp
next
  assume "\<forall>c\<in>set t. isWhiteSpace c"
  then show "trim t = []" by (auto simp: trim_def dest: set_dropWhileD)
qed

subsection \<open>Objects\<close>

lemma length_Object_entries: "length (Object_entries ob) = length ob"
  by (simp add: Object_entries_def sum_length_filter_compl)

lemma Object_entries_empty: "Object_entries ob = [] \<longleftrightarrow> ob = []"
  using length_Object_entries [of ob] by (metis length_0_conv)

lemma Object_keys_empty: "Object_keys ob = [] \<longleftrightarrow> ob = []"
  by (simp add: Object_keys_def Object_entries_empty)

lemma set_Object_entries: "set (Object_entries ob) = set ob"
  by (auto simp: Object_entries_def)

lemma insort_key_map:
  "insort_key f (h x) (map h xs) = map h (insort_key (\<lambda>y. f (h y)) x xs)"
  by (induction xs) simp_all

lemma sort_key_map: "sort_key f (map h xs) = map h (sort_key (\<lambda>y. f (h y)) xs)"
  by (induction xs) (simp_all add: insort_key_map)

lemma filter_swap: "filter Q (filter P xs) = filter P (filter Q xs)"
  by (induction xs) simp_all

lemma Object_entries_map:
  "Object_entries (map (\<lambda>p. (fst p, g (snd p))) ob) =
     map (\<lambda>p. (fst p, g (snd p))) (Object_entries ob)"
  by (simp add: Object_entries_def filter_map sort_key_map comp_def)

text \<open>Enumerating an enumeration changes nothing: it is already in own-property order.\<close>

lemma Object_entries_idem: "Object_entries (Object_entries ob) = Object_entries ob"
proof -
  let ?I = "\<lambda>p::jsstring \<times> 'a. isArrayIndex (fst p)"
  let ?f = "\<lambda>p::jsstring \<times> 'a. numericValue (fst p)"
  let ?A = "sort_key ?f (filter ?I ob)"
  let ?B = "filter (\<lambda>p. \<not> ?I p) ob"
  have 1: "filter ?I ?A = ?A" by (simp add: filter_sort)
  have 2: "filter ?I ?B = []" by simp
  have 3: "filter (\<lambda>p. \<not> ?I p) ?A = []" by (simp add: filter_sort)
  have 4: "filter (\<lambda>p. \<not> ?I p) ?B = ?B" by simp
  have 5: "sort_key ?f ?A = ?A" by (rule sort_key_id_if_sorted) simp
  show ?thesis
    unfolding Object_entries_def filter_append 1 2 3 4 append_Nil2 append_Nil 5 ..
qed

lemma distinct_keys_Object_entries:
  assumes "distinct (map fst ob)"
  shows "distinct (map fst (Object_entries ob))"
proof -
  from assms have d: "distinct ob" and inj: "inj_on fst (set ob)"
    by (simp_all add: distinct_map)
  have "distinct (Object_entries ob)"
    using d by (auto simp: Object_entries_def)
  moreover have "inj_on fst (set (Object_entries ob))"
    using inj by (simp add: set_Object_entries)
  ultimately show ?thesis by (simp add: distinct_map)
qed

lemma keys_defineProperty:
  "map fst (defineProperty ob k v) =
     (if k \<in> fst ` set ob then map fst ob else map fst ob @ [k])"
proof (induction ob)
  case Nil
  then show ?case by simp
next
  case (Cons p ob)
  obtain k' v' where p: "p = (k', v')" by (cases p)
  show ?case
  proof (cases "k' = k")
    case True
    then show ?thesis by (simp add: p)
  next
    case False
    then show ?thesis using Cons.IH by (simp add: p)
  qed
qed

lemma defineProperty_new:
  "k \<notin> set (map fst ob) \<Longrightarrow> defineProperty ob k v = ob @ [(k, v)]"
  by (induction ob) auto

lemma distinct_defineProperty:
  "distinct (map fst ob) \<Longrightarrow> distinct (map fst (defineProperty ob k v))"
  by (simp add: keys_defineProperty)

lemma distinct_foldl_defineProperty:
  "distinct (map fst acc) \<Longrightarrow>
     distinct (map fst (foldl (\<lambda>acc p. defineProperty acc (fst p) (snd p)) acc xs))"
  by (induction xs arbitrary: acc) (simp_all add: distinct_defineProperty)

text \<open>Whatever the state, a field change leaves an object whose keys are pairwise distinct.\<close>

lemma distinct_handleFormChange:
  "distinct (map fst (activeFormData (handleFormChange ev s)))"
  by (simp add: handleFormChange_def spread_def distinct_defineProperty
      distinct_foldl_defineProperty)

lemma foldl_assignString:
  assumes "distinct (map fst acc @ map fst xs)" and "js ''__proto__'' \<notin> set (map fst xs)"
  shows "foldl (\<lambda>acc p. assignString acc (fst p) (g (snd p))) acc xs =
           acc @ map (\<lambda>p. (fst p, g (snd p))) xs"
  using assms
proof (induction xs arbitrary: acc)
  case Nil
  then show ?case by simp
next
  case (Cons x xs)
  have new: "fst x \<notin> set (map fst acc)" using Cons.prems(1) by auto
  have np: "fst x \<noteq> js ''__proto__''" using Cons.prems(2) by auto
  have step: "assignString acc (fst x) (g (snd x)) = acc @ [(fst x, g (snd x))]"
    using new np by (simp add: assignString_def defineProperty_new)
  have d: "distinct (map fst (acc @ [(fst x, g (snd x))]) @ map fst xs)"
    using Cons.prems(1) by auto
  have "foldl (\<lambda>acc p. assignString acc (fst p) (g (snd p))) (acc @ [(fst x, g (snd x))]) xs =
          (acc @ [(fst x, g (snd x))]) @ map (\<lambda>p. (fst p, g (snd p))) xs"
    using Cons.IH [OF d] Cons.prems(2) by simp
  then show ?case by (simp add: step)
qed

lemma JSON_stringify_pretty_cong:
  "Object_entries a = Object_entries b \<Longrightarrow> JSON_stringify_pretty a = JSON_stringify_pretty b"
  by (simp add: JSON_stringify_pretty_def)

text \<open>
  The \<open>values\<close> object that \<open>handleUiAction\<close> fills key by key prints like the form data
  with each field reduced to its value, provided no field is called \<open>__proto__\<close>.
\<close>

lemma values_of_form:
  assumes "distinct (map fst fd)" and "js ''__proto__'' \<notin> set (map fst fd)"
  shows "JSON_stringify_pretty
           (foldl (\<lambda>acc p. assignString acc (fst p) (val (snd p))) [] (Object_entries fd)) =
         JSON_stringify_pretty (map (\<lambda>p. (fst p, val (snd p))) fd)"
proof -
  have d: "distinct (map fst [] @ map fst (Object_entries fd))"
    using distinct_keys_Object_entries [OF assms(1)] by simp
  have np: "js ''__proto__'' \<notin> set (map fst (Object_entries fd))"
    using assms(2) by (simp add: set_Object_entries)
  have f: "foldl (\<lambda>acc p. assignString acc (fst p) (val (snd p))) [] (Object_entries fd) =
          map (\<lambda>p. (fst p, val (snd p))) (Object_entries fd)"
    using foldl_assignString [OF d np, of val] by simp
  have "Object_entries (map (\<lambda>p. (fst p, val (snd p))) (Object_entries fd)) =
      Object_entries (map (\<lambda>p. (fst p, val (snd p))) fd)"
    by (simp only: Object_entries_map Object_entries_idem)
  then show ?thesis
    unfolding f by (rule JSON_stringify_pretty_cong)
qed

text \<open>Filtering the enumeration is enumerating the filtered keys.\<close>

lemma filtered_keys_order:
  "map fst (filter Q (Object_entries fd)) = enumeration_order (map fst (filter Q fd))"
proof -
  have a: "map fst (filter Q (sort_key (\<lambda>p. numericValue (fst p))
                                (filter (\<lambda>p. isArrayIndex (fst p)) fd)))
      = sort_key numericValue (filter isArrayIndex (map fst (filter Q fd)))"
  proof -
    have "filter Q (sort_key (\<lambda>p. numericValue (fst p)) (filter (\<lambda>p. isArrayIndex (fst p)) fd))
        = sort_key (\<lambda>p. numericValue (fst p)) (filter (\<lambda>p. isArrayIndex (fst p)) (filter Q fd))"
      unfolding filter_sort by (simp only: filter_swap [of Q])
    then show ?thesis by (simp add: sort_key_map filter_map comp_def)
  qed
  have b: "map fst (filter Q (filter (\<lambda>p. \<not> isArrayIndex (fst p)) fd))
      = filter (\<lambda>k. \<not> isArrayIndex k) (map fst (filter Q fd))"
    unfolding filter_swap [of Q] by (simp add: filter_map comp_def)
  show ?thesis
    unfolding Object_entries_def enumeration_order_def filter_append map_append a b ..
qed

subsection \<open>Turns of a run\<close>

lemma sendMessage_call_messages:
  "\<exists>extra. messages (fst (sendMessage_call stringify p d now s)) = messages s @ extra \<and>
           list_all turn_ok extra"
proof (cases "trim (or_str p (userInput s)) = [] \<or> isLoading s")
  case True
  then show ?thesis by (auto simp: sendMessage_call_def Let_def)
next
  case False
  then have "or_str p (userInput s) \<noteq> []" using trim_Nil by auto
  with False show ?thesis by (simp add: sendMessage_call_def Let_def turn_ok_def)
qed

lemma handleUiAction_body_messages:
  "messages (fst (handleUiAction_body actionId s)) = messages s"
  by (simp add: handleUiAction_body_def Let_def split: prod.splits)

lemma handleUiAction_messages:
  "\<exists>extra. messages (fst (handleUiAction stringify actionId now s)) = messages s @ extra \<and>
           list_all turn_ok extra"
proof (cases "handleUiAction_body actionId s")
  case (Pair s1 r)
  then have m: "messages s1 = messages s"
    using handleUiAction_body_messages [of actionId s] by simp
  show ?thesis
  proof (cases r)
    case None
    with Pair m show ?thesis by (simp add: handleUiAction_def)
  next
    case (Some pd)
    obtain prompt display where pd: "pd = (prompt, display)" by (cases pd)
    from Pair Some pd m sendMessage_call_messages [of stringify "Some prompt" "Some display" now s1]
    show ?thesis by (simp add: handleUiAction_def)
  qed
qed

lemma step_messages:
  "\<exists>extra. messages (step stringify ev s) = messages s @ extra \<and> list_all turn_ok extra"
proof (cases ev)
  case (SendMessage p d now)
  then show ?thesis using sendMessage_call_messages [of stringify p d now s] by simp
next
  case (HandleUiAction a now)
  then show ?thesis using handleUiAction_messages [of stringify a now s] by simp
next
  case (ConnectSettled ok config now)
  then show ?thesis
    by (simp add: connectAgent_settled_def addSystemMessage_def Let_def turn_ok_def)
next
  case (SendSettled r now)
  then show ?thesis
    by (simp add: sendMessage_settled_def addSystemMessage_def Let_def turn_ok_def
        split: option.splits)
qed (simp_all add: toggleSettings_def connectAgent_call_def handleFormChange_def Let_def)

lemma run_Nil: "run stringify [] s = s"
  by (simp add: run_def)

lemma run_Cons: "run stringify (ev # evs) s = run stringify evs (step stringify ev s)"
  by (simp add: run_def)

text \<open>The history is append-only along a run, and every appended turn is well formed.\<close>

lemma run_messages:
  "\<exists>extra. messages (run stringify evs s) = messages s @ extra \<and> list_all turn_ok extra"
proof (induction evs arbitrary: s)
  case Nil
  then show ?case by (simp add: run_Nil)
next
  case (Cons ev evs)
  obtain e1 where e1: "messages (step stringify ev s) = messages s @ e1" "list_all turn_ok e1"
    using step_messages by blast
  obtain e2 where e2: "messages (run stringify evs (step stringify ev s)) =
      messages (step stringify ev s) @ e2" "list_all turn_ok e2"
    using Cons.IH by blast
  from e1 e2 have "messages (run stringify (ev # evs) s) = messages s @ (e1 @ e2) \<and>
      list_all turn_ok (e1 @ e2)" by (simp add: run_Cons)
  then show ?case by blast
qed

lemma constructor_messages:
  "messages (constructor t0) =
     [\<lparr>role = Model, content = None, promptContent = None, ui = Some greeting, timestamp = t0\<rparr>]"
  by (simp add: constructor_def addSystemMessage_def initial_def)

lemma run_turns_ok: "list_all turn_ok (messages (run stringify evs (constructor t0)))"
proof -
  obtain extra where "messages (run stringify evs (constructor t0)) =
      messages (constructor t0) @ extra" "list_all turn_ok extra"
    using run_messages by blast
  then show ?thesis by (simp add: constructor_messages turn_ok_def)
qed

lemma history_entry_ok:
  assumes "turn_ok m"
  shows "entry_role (history_entry stringify m) = role m \<and>
     (role m = User \<longrightarrow> parts (history_entry stringify m) =
        [\<lparr>part_text = (case promptContent m of Some p \<Rightarrow> Some p | None \<Rightarrow> content m)\<rparr>]) \<and>
     (role m = Model \<longrightarrow> (\<exists>u. ui m = Some u \<and>
        parts (history_entry stringify m) = [\<lparr>part_text = Some (stringify u)\<rparr>]))"
  using assms
  by (cases "role m") (auto simp: history_entry_def turn_ok_def or_undef_def split: option.splits)

lemma step_before_first_send:
  "before_first_send ev \<Longrightarrow> messages (step stringify ev s) = messages s"
  by (cases ev)
     (simp_all add: toggleSettings_def connectAgent_call_def handleFormChange_def Let_def
        connectAgent_settled_def handleUiAction_def handleUiAction_body_def)

lemma run_before_first_send:
  "list_all before_first_send evs \<Longrightarrow> messages (run stringify evs s) = messages s"
  by (induction evs arbitrary: s) (simp_all add: run_Nil run_Cons step_before_first_send)

lemma sendMessage_call_form:
  "activeFormData (fst (sendMessage_call stringify p d now s)) = activeFormData s"
  by (simp add: sendMessage_call_def Let_def)

lemma handleUiAction_body_form:
  "activeFormData (fst (handleUiAction_body actionId s)) =
     (if actionId = js ''open_settings'' then activeFormData s else [])"
proof (cases "actionId = js ''open_settings''")
  case True
  then show ?thesis by (simp add: handleUiAction_body_def)
next
  case False
  then show ?thesis
    by (cases "activeFormData s = []")
       (simp_all add: handleUiAction_body_def Let_def Object_keys_empty split: prod.splits)
qed

lemma handleUiAction_form:
  "activeFormData (fst (handleUiAction stringify actionId now s)) =
     (if actionId = js ''open_settings'' then activeFormData s else [])"
proof (cases "handleUiAction_body actionId s")
  case (Pair s1 r)
  then have f: "activeFormData s1 = (if actionId = js ''open_settings'' then activeFormData s else [])"
    using handleUiAction_body_form [of actionId s] by simp
  show ?thesis
  proof (cases r)
    case None
    with Pair f show ?thesis by (simp add: handleUiAction_def)
  next
    case (Some pd)
    obtain prompt display where pd: "pd = (prompt, display)" by (cases pd)
    from Pair Some pd f sendMessage_call_form [of stringify "Some prompt" "Some display" now s1]
    show ?thesis by (simp add: handleUiAction_def)
  qed
qed

lemma step_distinct_keys:
  assumes "distinct (map fst (activeFormData s))"
  shows "distinct (map fst (activeFormData (step stringify ev s)))"
proof (cases ev)
  case (SendMessage p d now)
  then show ?thesis using assms sendMessage_call_form [of stringify p d now s] by simp
next
  case (HandleUiAction a now)
  then show ?thesis using assms handleUiAction_form [of stringify a now s] by simp
next
  case (HandleFormChange e)
  then show ?thesis by (simp add: distinct_handleFormChange)
next
  case (ConnectSettled ok config now)
  then show ?thesis using assms
    by (simp add: connectAgent_settled_def addSystemMessage_def Let_def)
next
  case (SendSettled r now)
  then show ?thesis using assms
    by (simp add: sendMessage_settled_def addSystemMessage_def Let_def split: option.splits)
qed (use assms in \<open>simp_all add: toggleSettings_def connectAgent_call_def Let_def\<close>)

text \<open>In every run the form data is an object: no key occurs twice.\<close>

lemma run_distinct_keys:
  "distinct (map fst (activeFormData s)) \<Longrightarrow>
     distinct (map fst (activeFormData (run stringify evs s)))"
  by (induction evs arbitrary: s) (simp_all add: run_Nil run_Cons step_distinct_keys)

subsection \<open>A send that passes the guard\<close>

lemma trim_head: "\<not> isWhiteSpace c \<Longrightarrow> trim (c # cs) \<noteq> []"
  using trim_empty_iff [of "c # cs"] by auto

lemma prompt_not_blank: "trim (js ''User triggered action: '' @ rest) \<noteq> []"
proof -
  have "js ''User triggered action: '' @ rest = 0x55 # (js ''ser triggered action: '' @ rest)"
    by (simp add: js_def)
  moreover have "\<not> isWhiteSpace 0x55" by (simp add: isWhiteSpace_def)
  ultimately show ?thesis by (simp only: trim_head not_False_eq_True)
qed

lemma display_not_empty: "js ''Triggered Action: '' @ rest \<noteq> []"
  by (simp add: js_def)

lemma sendMessage_call_passes:
  assumes "trim p \<noteq> []" and "d \<noteq> []" and "\<not> isLoading s"
  shows "sendMessage_call stringify (Some p) (Some d) now s =
           (s\<lparr>messages := messages s @
                [\<lparr>role = User, content = Some d, promptContent = Some p, ui = None,
                  timestamp = now\<rparr>],
              userInput := [], isLoading := True\<rparr>,
            Some (GenerateResponse p (map (history_entry stringify) (messages s))))"
proof -
  have "p \<noteq> []" using assms(1) trim_Nil by auto
  then show ?thesis using assms by (simp add: sendMessage_call_def Let_def or_str_def)
qed

subsection \<open>Evaluation\<close>

lemmas eval_defs =
  js_def run_def constructor_def addSystemMessage_def initial_def toggleSettings_def
  handleFormChange_def spread_def Object_entries_def Object_keys_def isArrayIndex_def
  isDigit_def numericValue_def handleUiAction_def handleUiAction_body_def Let_def
  assignString_def JSON_stringify_pretty_def QuoteJSONString_def join_def
  isLeadingSurrogate_def isTrailingSurrogate_def enumeration_order_def
  sendMessage_def sendMessage_call_def sendMessage_settled_def or_str_def or_undef_def
  trim_def isWhiteSpace_def history_entry_def connectAgent_def connectAgent_call_def
  connectAgent_settled_def invalid_def markAllAsTouched_def

section \<open>Properties of the component\<close>

text \<open>
  C1. Dispatching any action other than \<open>open_settings\<close> leaves the form data empty when the
  handler returns, whatever it held before, and it is still empty when the send that the
  dispatch started has settled: a field value never reaches a later dispatch.
\<close>

theorem handleUiAction_leaves_form_empty:
  assumes "actionId \<noteq> js ''open_settings''"
  shows "activeFormData (fst (handleUiAction stringify actionId now s)) = [] \<and>
         activeFormData
           (sendMessage_settled response now' (fst (handleUiAction stringify actionId now s))) = []"
proof -
  have "activeFormData (fst (handleUiAction stringify actionId now s)) = []"
    using assms by (simp add: handleUiAction_form)
  then show ?thesis
    by (simp add: sendMessage_settled_def addSystemMessage_def Let_def split: option.splits)
qed

theorem handleUiAction_leaves_form_empty_witness:
  "js ''submit_order'' \<noteq> js ''open_settings'' \<and>
   activeFormData
     (run type [HandleFormChange (FormChangeEvent (js ''name'') (js ''foo'') True)] (constructor 0))
     = [(js ''name'', \<lparr>val = js ''foo'', isValid = True\<rparr>)] \<and>
   activeFormData (fst (handleUiAction type (js ''submit_order'') 1
     (run type [HandleFormChange (FormChangeEvent (js ''name'') (js ''foo'') True)] (constructor 0))))
     = []"
proof -
  have h: "js ''submit_order'' \<noteq> js ''open_settings''" by (simp add: js_eq_iff)
  have "activeFormData
     (run type [HandleFormChange (FormChangeEvent (js ''name'') (js ''foo'') True)] (constructor 0))
     = [(js ''name'', \<lparr>val = js ''foo'', isValid = True\<rparr>)]"
    by (simp add: run_def handleFormChange_def spread_def Object_entries_def constructor_def
        addSystemMessage_def initial_def)
  then show ?thesis
    using h handleUiAction_leaves_form_empty [OF h, of type 1 _ None 2] by simp
qed

text \<open>
  C4. A call of \<open>sendMessage\<close> whose resolved prompt (the given \<open>promptText\<close>, else the
  free-text input) is empty or consists of white space only, or that is made while a send is
  in flight, returns at once: the state is the one before, no turn is appended and the agent
  client is not called.
\<close>

theorem sendMessage_guard:
  assumes "list_all isWhiteSpace (or_str promptText (userInput s)) \<or> isLoading s"
  shows "sendMessage_call stringify promptText displayText now s = (s, None) \<and>
         sendMessage stringify response promptText displayText now now' s = s"
  using assms
  by (auto simp: sendMessage_call_def sendMessage_def Let_def trim_empty_iff list_all_iff)

theorem sendMessage_guard_witness:
  "list_all isWhiteSpace (or_str (Some (js ''  '')) (userInput (constructor 0))) \<and>
   isLoading (run type [SendMessage (Some (js ''hi'')) None 1] (constructor 0)) \<and>
   sendMessage_call type (Some (js ''  '')) None 1 (constructor 0) = (constructor 0, None) \<and>
   sendMessage_call type (Some (js ''again'')) None 2
       (run type [SendMessage (Some (js ''hi'')) None 1] (constructor 0))
     = (run type [SendMessage (Some (js ''hi'')) None 1] (constructor 0), None)"
proof -
  have blank: "list_all isWhiteSpace (or_str (Some (js ''  '')) (userInput (constructor 0)))"
    by (simp add: or_str_def js_def isWhiteSpace_def)
  have busy: "isLoading (run type [SendMessage (Some (js ''hi'')) None 1] (constructor 0))"
    by (simp add: eval_defs)
  show ?thesis
    using blank busy
      sendMessage_guard [of "Some (js ''  '')" "constructor 0" type None 1 None 2]
      sendMessage_guard [of "Some (js ''again'')"
        "run type [SendMessage (Some (js ''hi'')) None 1] (constructor 0)" type None 2 None 3]
    by blast
qed

text \<open>
  C5. When \<open>generateResponse\<close> rejects, the send ends with the sending flag cleared and the
  history holding exactly the turns it had before plus the user turn the call appended: no
  model turn, no error turn. The settling step by itself only clears the flag.
\<close>

theorem sendMessage_failure:
  assumes "trim (or_str promptText (userInput s)) \<noteq> []" and "\<not> isLoading s"
  shows "sendMessage stringify None promptText displayText now now' s =
           s\<lparr>messages := messages s @
                [\<lparr>role = User,
                  content = Some (or_str displayText (or_str promptText (userInput s))),
                  promptContent = Some (or_str promptText (userInput s)),
                  ui = None, timestamp = now\<rparr>],
             userInput := [], isLoading := False\<rparr> \<and>
         length (messages (sendMessage stringify None promptText displayText now now' s))
           = Suc (length (messages s)) \<and>
         sendMessage_settled None now' st = st\<lparr>isLoading := False\<rparr>"
  using assms by (simp add: sendMessage_def sendMessage_call_def sendMessage_settled_def Let_def)

theorem sendMessage_failure_witness:
  "trim (or_str (Some (js ''hi'')) (userInput (constructor 0))) \<noteq> [] \<and>
   \<not> isLoading (constructor 0) \<and>
   messages (sendMessage type None (Some (js ''hi'')) None 1 2 (constructor 0)) =
     [\<lparr>role = Model, content = None, promptContent = None, ui = Some greeting, timestamp = 0\<rparr>,
      \<lparr>role = User, content = Some (js ''hi''), promptContent = Some (js ''hi''), ui = None,
       timestamp = 1\<rparr>] \<and>
   isLoading (sendMessage type None (Some (js ''hi'')) None 1 2 (constructor 0)) = False"
proof -
  have h1: "trim (or_str (Some (js ''hi'')) (userInput (constructor 0))) \<noteq> []"
    by (simp add: or_str_def js_def trim_def isWhiteSpace_def)
  have h2: "\<not> isLoading (constructor 0)"
    by (simp add: constructor_def addSystemMessage_def initial_def)
  have o: "or_str (Some (js ''hi'')) (userInput (constructor 0)) = js ''hi''"
    by (simp add: or_str_def js_def)
  have o': "or_str None (js ''hi'') = js ''hi''"
    by (simp add: or_str_def)
  show ?thesis
    using h1 h2 sendMessage_failure [OF h1 h2, of type None 1 2]
    by (simp add: o o' constructor_messages)
qed

text \<open>
  C6. Dispatching \<open>open_settings\<close> opens the settings surface and does nothing else: the
  handler returns before it reads the form data, composes a prompt or calls \<open>sendMessage\<close>,
  so the form data, the history and every other signal are as before and no agent call is
  made.
\<close>

theorem handleUiAction_open_settings:
  "handleUiAction_body (js ''open_settings'') s = (s\<lparr>isSettingsOpen := True\<rparr>, None) \<and>
   handleUiAction stringify (js ''open_settings'') now s = (s\<lparr>isSettingsOpen := True\<rparr>, None)"
  by (simp add: handleUiAction_def handleUiAction_body_def)

theorem handleUiAction_open_settings_witness:
  "handleUiAction type (js ''open_settings'') 1 (constructor 0) =
     ((constructor 0)\<lparr>isSettingsOpen := True\<rparr>, None) \<and>
   messages (fst (handleUiAction type (js ''open_settings'') 1 (constructor 0))) =
     messages (constructor 0)"
  using handleUiAction_open_settings [of "constructor 0" type 1] by simp

text \<open>
  C9. An action other than \<open>open_settings\<close> that is dispatched while a send is in flight and
  the form data is not empty clears the form data, and the send it attempts is rejected by
  the guard: no turn is appended and no agent call is made, so the submitted values are gone
  without a prompt carrying them.
\<close>

theorem handleUiAction_while_sending:
  assumes "actionId \<noteq> js ''open_settings''" and "isLoading s" and "activeFormData s \<noteq> []"
  shows "handleUiAction stringify actionId now s = (s\<lparr>activeFormData := []\<rparr>, None)"
  using assms
  by (simp add: handleUiAction_def handleUiAction_body_def sendMessage_call_def Let_def
      Object_keys_empty split: prod.splits)

theorem handleUiAction_while_sending_witness:
  "js ''submit_order'' \<noteq> js ''open_settings'' \<and>
   isLoading (run type [HandleFormChange (FormChangeEvent (js ''name'') (js ''foo'') True),
                        SendMessage (Some (js ''hi'')) None 1] (constructor 0)) \<and>
   activeFormData (run type [HandleFormChange (FormChangeEvent (js ''name'') (js ''foo'') True),
                             SendMessage (Some (js ''hi'')) None 1] (constructor 0)) \<noteq> [] \<and>
   handleUiAction type (js ''submit_order'') 2
       (run type [HandleFormChange (FormChangeEvent (js ''name'') (js ''foo'') True),
                  SendMessage (Some (js ''hi'')) None 1] (constructor 0))
     = ((run type [HandleFormChange (FormChangeEvent (js ''name'') (js ''foo'') True),
                   SendMessage (Some (js ''hi'')) None 1] (constructor 0))\<lparr>activeFormData := []\<rparr>,
        None)"
proof -
  let ?s = "run type [HandleFormChange (FormChangeEvent (js ''name'') (js ''foo'') True),
                      SendMessage (Some (js ''hi'')) None 1] (constructor 0)"
  have h1: "js ''submit_order'' \<noteq> js ''open_settings''" by (simp add: js_eq_iff)
  have h2: "isLoading ?s" by (simp add: eval_defs)
  have h3: "activeFormData ?s \<noteq> []" by (simp add: eval_defs)
  show ?thesis
    using h1 h2 h3 handleUiAction_while_sending [OF h1 h2 h3, of type 2] by simp
qed

text \<open>
  C3. A call of \<open>sendMessage\<close> that passes its guard, in any state, hands the agent client a
  history with one entry per turn present before the call, in order, and then appends the
  new user turn, which is not part of that history. The entry of a user turn carries its
  \<open>promptContent\<close> when that is present and not the empty string, and its \<open>content\<close>
  otherwise; the entry of a model turn carries the JSON text of its tree. In a run of the
  component every user turn has a non-empty \<open>promptContent\<close> and every model turn a tree,
  so there the entry of a user turn is its \<open>promptContent\<close>.
\<close>

theorem sendMessage_history:
  assumes "trim (or_str promptText (userInput s)) \<noteq> []" and "\<not> isLoading s"
  shows "\<exists>history.
      snd (sendMessage_call stringify promptText displayText now s) =
        Some (GenerateResponse (or_str promptText (userInput s)) history) \<and>
      messages (fst (sendMessage_call stringify promptText displayText now s)) =
        messages s @ [\<lparr>role = User,
                        content = Some (or_str displayText (or_str promptText (userInput s))),
                        promptContent = Some (or_str promptText (userInput s)),
                        ui = None, timestamp = now\<rparr>] \<and>
      length history = length (messages s) \<and>
      (\<forall>i < length (messages s).
         entry_role (history ! i) = role (messages s ! i) \<and>
         (role (messages s ! i) = User \<longrightarrow>
            (\<forall>p. promptContent (messages s ! i) = Some p \<and> p \<noteq> [] \<longrightarrow>
                 parts (history ! i) = [\<lparr>part_text = Some p\<rparr>]) \<and>
            (promptContent (messages s ! i) = None \<or> promptContent (messages s ! i) = Some [] \<longrightarrow>
                 parts (history ! i) = [\<lparr>part_text = content (messages s ! i)\<rparr>])) \<and>
         (role (messages s ! i) = Model \<longrightarrow>
            (\<forall>u. ui (messages s ! i) = Some u \<longrightarrow>
                 parts (history ! i) = [\<lparr>part_text = Some (stringify u)\<rparr>]) \<and>
            (ui (messages s ! i) = None \<longrightarrow> parts (history ! i) = [\<lparr>part_text = None\<rparr>]))) \<and>
      (\<forall>evs t0. s = run stringify evs (constructor t0) \<longrightarrow>
         (\<forall>i < length (messages s).
            (role (messages s ! i) = User \<longrightarrow>
               (\<exists>p. promptContent (messages s ! i) = Some p \<and> p \<noteq> [] \<and>
                    parts (history ! i) = [\<lparr>part_text = Some p\<rparr>])) \<and>
            (role (messages s ! i) = Model \<longrightarrow>
               (\<exists>u. ui (messages s ! i) = Some u \<and>
                    parts (history ! i) = [\<lparr>part_text = Some (stringify u)\<rparr>]))))"
proof -
  let ?h = "map (history_entry stringify) (messages s)"
  have call: "sendMessage_call stringify promptText displayText now s =
      (s\<lparr>messages := messages s @ [\<lparr>role = User,
                        content = Some (or_str displayText (or_str promptText (userInput s))),
                        promptContent = Some (or_str promptText (userInput s)),
                        ui = None, timestamp = now\<rparr>], userInput := [], isLoading := True\<rparr>,
       Some (GenerateResponse (or_str promptText (userInput s)) ?h))"
    using assms by (simp add: sendMessage_call_def Let_def)
  have entry: "entry_role (history_entry stringify m) = role m \<and>
         (role m = User \<longrightarrow>
            (\<forall>p. promptContent m = Some p \<and> p \<noteq> [] \<longrightarrow>
                 parts (history_entry stringify m) = [\<lparr>part_text = Some p\<rparr>]) \<and>
            (promptContent m = None \<or> promptContent m = Some [] \<longrightarrow>
                 parts (history_entry stringify m) = [\<lparr>part_text = content m\<rparr>])) \<and>
         (role m = Model \<longrightarrow>
            (\<forall>u. ui m = Some u \<longrightarrow>
                 parts (history_entry stringify m) = [\<lparr>part_text = Some (stringify u)\<rparr>]) \<and>
            (ui m = None \<longrightarrow> parts (history_entry stringify m) = [\<lparr>part_text = None\<rparr>]))"
    for m
    by (cases "role m") (auto simp: history_entry_def or_undef_def)
  have each: "\<forall>i < length (messages s).
         entry_role (?h ! i) = role (messages s ! i) \<and>
         (role (messages s ! i) = User \<longrightarrow>
            (\<forall>p. promptContent (messages s ! i) = Some p \<and> p \<noteq> [] \<longrightarrow>
                 parts (?h ! i) = [\<lparr>part_text = Some p\<rparr>]) \<and>
            (promptContent (messages s ! i) = None \<or> promptContent (messages s ! i) = Some [] \<longrightarrow>
                 parts (?h ! i) = [\<lparr>part_text = content (messages s ! i)\<rparr>])) \<and>
         (role (messages s ! i) = Model \<longrightarrow>
            (\<forall>u. ui (messages s ! i) = Some u \<longrightarrow>
                 parts (?h ! i) = [\<lparr>part_text = Some (stringify u)\<rparr>]) \<and>
            (ui (messages s ! i) = None \<longrightarrow> parts (?h ! i) = [\<lparr>part_text = None\<rparr>]))"
    using entry by simp
  have reach: "\<forall>evs t0. s = run stringify evs (constructor t0) \<longrightarrow>
         (\<forall>i < length (messages s).
            (role (messages s ! i) = User \<longrightarrow>
               (\<exists>p. promptContent (messages s ! i) = Some p \<and> p \<noteq> [] \<and>
                    parts (?h ! i) = [\<lparr>part_text = Some p\<rparr>])) \<and>
            (role (messages s ! i) = Model \<longrightarrow>
               (\<exists>u. ui (messages s ! i) = Some u \<and>
                    parts (?h ! i) = [\<lparr>part_text = Some (stringify u)\<rparr>])))"
  proof (intro allI impI)
    fix evs t0 i
    assume s: "s = run stringify evs (constructor t0)" and i: "i < length (messages s)"
    have "turn_ok (messages s ! i)"
      using run_turns_ok [of stringify evs t0] s i by (simp add: list_all_length)
    then show "(role (messages s ! i) = User \<longrightarrow>
               (\<exists>p. promptContent (messages s ! i) = Some p \<and> p \<noteq> [] \<and>
                    parts (?h ! i) = [\<lparr>part_text = Some p\<rparr>])) \<and>
            (role (messages s ! i) = Model \<longrightarrow>
               (\<exists>u. ui (messages s ! i) = Some u \<and>
                    parts (?h ! i) = [\<lparr>part_text = Some (stringify u)\<rparr>]))"
      using i history_entry_ok [of "messages s ! i" stringify]
      by (cases "promptContent (messages s ! i)") (auto simp: turn_ok_def)
  qed
  show ?thesis
    apply (rule exI [of _ ?h])
    using call each reach by simp
qed

theorem sendMessage_history_witness:
  "trim (or_str (Some (js ''hi'')) (userInput ((constructor 0)\<lparr>messages :=
      [\<lparr>role = Model, content = None, promptContent = None, ui = Some greeting, timestamp = 0\<rparr>,
       \<lparr>role = User, content = Some (js ''shown''), promptContent = None, ui = None,
        timestamp = 1\<rparr>,
       \<lparr>role = User, content = Some (js ''shown''), promptContent = Some (js ''asked''),
        ui = None, timestamp = 2\<rparr>]\<rparr>))) \<noteq> [] \<and>
   \<not> isLoading ((constructor 0)\<lparr>messages :=
      [\<lparr>role = Model, content = None, promptContent = None, ui = Some greeting, timestamp = 0\<rparr>,
       \<lparr>role = User, content = Some (js ''shown''), promptContent = None, ui = None,
        timestamp = 1\<rparr>,
       \<lparr>role = User, content = Some (js ''shown''), promptContent = Some (js ''asked''),
        ui = None, timestamp = 2\<rparr>]\<rparr>) \<and>
   (\<exists>history.
      snd (sendMessage_call type (Some (js ''hi'')) None 3 ((constructor 0)\<lparr>messages :=
      [\<lparr>role = Model, content = None, promptContent = None, ui = Some greeting, timestamp = 0\<rparr>,
       \<lparr>role = User, content = Some (js ''shown''), promptContent = None, ui = None,
        timestamp = 1\<rparr>,
       \<lparr>role = User, content = Some (js ''shown''), promptContent = Some (js ''asked''),
        ui = None, timestamp = 2\<rparr>]\<rparr>)) = Some (GenerateResponse (js ''hi'') history) \<and>
      length history = 3 \<and>
      parts (history ! 0) = [\<lparr>part_text = Some (type greeting)\<rparr>] \<and>
      parts (history ! 1) = [\<lparr>part_text = Some (js ''shown'')\<rparr>] \<and>
      parts (history ! 2) = [\<lparr>part_text = Some (js ''asked'')\<rparr>]) \<and>
   trim (or_str (Some (js ''again''))
      (userInput (run type [SendMessage (Some (js ''hello'')) (Some (js ''Hello!'')) 1,
                            SendSettled (Some greeting) 2] (constructor 0)))) \<noteq> [] \<and>
   \<not> isLoading (run type [SendMessage (Some (js ''hello'')) (Some (js ''Hello!'')) 1,
                          SendSettled (Some greeting) 2] (constructor 0)) \<and>
   (\<exists>history.
      snd (sendMessage_call type (Some (js ''again'')) None 3
        (run type [SendMessage (Some (js ''hello'')) (Some (js ''Hello!'')) 1,
                   SendSettled (Some greeting) 2] (constructor 0)))
        = Some (GenerateResponse (js ''again'') history) \<and>
      length history = 3 \<and>
      parts (history ! 1) = [\<lparr>part_text = Some (js ''hello'')\<rparr>] \<and>
      parts (history ! 2) = [\<lparr>part_text = Some (type greeting)\<rparr>])"
proof -
  let ?ms = "[\<lparr>role = Model, content = None, promptContent = None, ui = Some greeting,
               timestamp = 0\<rparr>,
              \<lparr>role = User, content = Some (js ''shown''), promptContent = None, ui = None,
               timestamp = 1\<rparr>,
              \<lparr>role = User, content = Some (js ''shown''), promptContent = Some (js ''asked''),
               ui = None, timestamp = 2\<rparr>]"
  let ?w = "(constructor 0)\<lparr>messages := ?ms\<rparr>"
  let ?s = "run type [SendMessage (Some (js ''hello'')) (Some (js ''Hello!'')) 1,
                      SendSettled (Some greeting) 2] (constructor 0)"
  have asked: "js ''asked'' \<noteq> []" by (simp add: js_Nil_iff)
  have wm: "messages ?w = ?ms" by simp
  have wu: "userInput ?w = []" by (simp add: constructor_def addSystemMessage_def initial_def)
  have oh: "or_str (Some (js ''hi'')) [] = js ''hi''" by (simp add: or_str_def js_def)
  have w1: "trim (or_str (Some (js ''hi'')) (userInput ?w)) \<noteq> []"
    unfolding wu oh by (simp add: js_def trim_def isWhiteSpace_def)
  have w2: "\<not> isLoading ?w" by (simp add: constructor_def addSystemMessage_def initial_def)
  from sendMessage_history [OF w1 w2, of type None 3]
  obtain hw where
    wc: "snd (sendMessage_call type (Some (js ''hi'')) None 3 ?w) =
          Some (GenerateResponse (or_str (Some (js ''hi'')) (userInput ?w)) hw)" and
    wl: "length hw = length (messages ?w)" and
    we: "\<forall>i < length (messages ?w).
         entry_role (hw ! i) = role (messages ?w ! i) \<and>
         (role (messages ?w ! i) = User \<longrightarrow>
            (\<forall>p. promptContent (messages ?w ! i) = Some p \<and> p \<noteq> [] \<longrightarrow>
                 parts (hw ! i) = [\<lparr>part_text = Some p\<rparr>]) \<and>
            (promptContent (messages ?w ! i) = None \<or> promptContent (messages ?w ! i) = Some [] \<longrightarrow>
                 parts (hw ! i) = [\<lparr>part_text = content (messages ?w ! i)\<rparr>])) \<and>
         (role (messages ?w ! i) = Model \<longrightarrow>
            (\<forall>u. ui (messages ?w ! i) = Some u \<longrightarrow>
                 parts (hw ! i) = [\<lparr>part_text = Some (type u)\<rparr>]) \<and>
            (ui (messages ?w ! i) = None \<longrightarrow> parts (hw ! i) = [\<lparr>part_text = None\<rparr>]))"
    by blast
  have wc': "snd (sendMessage_call type (Some (js ''hi'')) None 3 ?w) =
          Some (GenerateResponse (js ''hi'') hw)"
    using wc unfolding wu oh .
  have wl': "length hw = 3" using wl unfolding wm by simp
  have we0: "parts (hw ! 0) = [\<lparr>part_text = Some (type greeting)\<rparr>]"
    using we [rule_format, of 0] unfolding wm by simp
  have we1: "parts (hw ! 1) = [\<lparr>part_text = Some (js ''shown'')\<rparr>]"
    using we [rule_format, of 1] unfolding wm by simp
  have we2: "parts (hw ! 2) = [\<lparr>part_text = Some (js ''asked'')\<rparr>]"
    using we [rule_format, of 2] asked unfolding wm by simp
  have m: "messages ?s =
     [\<lparr>role = Model, content = None, promptContent = None, ui = Some greeting, timestamp = 0\<rparr>,
      \<lparr>role = User, content = Some (js ''Hello!''), promptContent = Some (js ''hello''),
       ui = None, timestamp = 1\<rparr>,
      \<lparr>role = Model, content = None, promptContent = None, ui = Some greeting, timestamp = 2\<rparr>]"
    by (simp add: eval_defs)
  have u: "userInput ?s = []" by (simp add: eval_defs)
  have o: "or_str (Some (js ''again'')) [] = js ''again''" by (simp add: or_str_def js_def)
  have h1: "trim (or_str (Some (js ''again'')) (userInput ?s)) \<noteq> []"
    unfolding u o by (simp add: js_def trim_def isWhiteSpace_def)
  have h2: "\<not> isLoading ?s" by (simp add: eval_defs)
  from sendMessage_history [OF h1 h2, of type None 3]
  obtain history where
    c: "snd (sendMessage_call type (Some (js ''again'')) None 3 ?s) =
          Some (GenerateResponse (or_str (Some (js ''again'')) (userInput ?s)) history)" and
    l: "length history = length (messages ?s)" and
    e: "\<forall>evs t0. ?s = run type evs (constructor t0) \<longrightarrow>
         (\<forall>i < length (messages ?s).
            (role (messages ?s ! i) = User \<longrightarrow>
               (\<exists>p. promptContent (messages ?s ! i) = Some p \<and> p \<noteq> [] \<and>
                    parts (history ! i) = [\<lparr>part_text = Some p\<rparr>])) \<and>
            (role (messages ?s ! i) = Model \<longrightarrow>
               (\<exists>u. ui (messages ?s ! i) = Some u \<and>
                    parts (history ! i) = [\<lparr>part_text = Some (type u)\<rparr>])))"
    by blast
  have e': "\<forall>i < length (messages ?s).
            (role (messages ?s ! i) = User \<longrightarrow>
               (\<exists>p. promptContent (messages ?s ! i) = Some p \<and> p \<noteq> [] \<and>
                    parts (history ! i) = [\<lparr>part_text = Some p\<rparr>])) \<and>
            (role (messages ?s ! i) = Model \<longrightarrow>
               (\<exists>u. ui (messages ?s ! i) = Some u \<and>
                    parts (history ! i) = [\<lparr>part_text = Some (type u)\<rparr>]))"
    using e [rule_format, OF refl] by blast
  have c': "snd (sendMessage_call type (Some (js ''again'')) None 3 ?s) =
          Some (GenerateResponse (js ''again'') history)"
    using c unfolding u o .
  have l': "length history = 3" using l unfolding m by simp
  have e1: "parts (history ! 1) = [\<lparr>part_text = Some (js ''hello'')\<rparr>]"
    using e' [rule_format, of 1] unfolding m by simp
  have e2: "parts (history ! 2) = [\<lparr>part_text = Some (type greeting)\<rparr>]"
    using e' [rule_format, of 2] unfolding m by simp
  show ?thesis using w1 w2 wc' wl' we0 we1 we2 h1 h2 c' l' e1 e2 by blast
qed

text \<open>
  C8. The history handed to the agent client is a function of the turns alone: two sends
  that find the same sequence of turns hand over the same entries, whatever the prompts, the
  display texts, the time and the other signals are.
\<close>

theorem history_deterministic:
  assumes "messages s1 = messages s2"
    and "snd (sendMessage_call stringify p1 d1 n1 s1) = Some (GenerateResponse t1 h1)"
    and "snd (sendMessage_call stringify p2 d2 n2 s2) = Some (GenerateResponse t2 h2)"
  shows "h1 = h2"
  using assms by (auto simp: sendMessage_call_def Let_def split: if_splits)

theorem history_deterministic_witness:
  "messages (constructor 0) =
     messages (run type [SetUserInput (js ''draft''), ToggleSettings] (constructor 0)) \<and>
   snd (sendMessage_call type (Some (js ''hi'')) None 1 (constructor 0)) =
     Some (GenerateResponse (js ''hi'')
       [\<lparr>entry_role = Model, parts = [\<lparr>part_text = Some (type greeting)\<rparr>]\<rparr>]) \<and>
   snd (sendMessage_call type None (Some (js ''shown'')) 2
          (run type [SetUserInput (js ''draft''), ToggleSettings] (constructor 0))) =
     Some (GenerateResponse (js ''draft'')
       [\<lparr>entry_role = Model, parts = [\<lparr>part_text = Some (type greeting)\<rparr>]\<rparr>])"
proof -
  let ?s2 = "run type [SetUserInput (js ''draft''), ToggleSettings] (constructor 0)"
  have m: "messages (constructor 0) = messages ?s2" by (simp add: eval_defs)
  have c1: "snd (sendMessage_call type (Some (js ''hi'')) None 1 (constructor 0)) =
     Some (GenerateResponse (js ''hi'')
       [\<lparr>entry_role = Model, parts = [\<lparr>part_text = Some (type greeting)\<rparr>]\<rparr>])"
    by (simp add: eval_defs)
  have c2: "snd (sendMessage_call type None (Some (js ''shown'')) 2 ?s2) =
     Some (GenerateResponse (js ''draft'') (map (history_entry type) (messages ?s2)))"
    by (simp add: eval_defs)
  show ?thesis
    using m c1 c2 history_deterministic [OF m c1 c2] by simp
qed

text \<open>
  C7. \<open>connectAgent\<close> with a form in which the endpoint, the API key, the deployment name or
  the API version is empty returns before any agent call: the fields are marked as touched
  and nothing else changes, so the connection status is as before and no turn is appended.
  With a complete form it calls \<open>connect\<close> with the values of the form; when the call
  resolves the status is \<open>connected\<close> and exactly one model turn, the acknowledgement, is
  appended; when it rejects the status is \<open>error\<close> and the history is as before.
\<close>

theorem connectAgent_outcomes:
  "(endpoint (form_value (configForm s)) = [] \<or> api_key (form_value (configForm s)) = [] \<or>
    deployment_name (form_value (configForm s)) = [] \<or>
    api_version (form_value (configForm s)) = [] \<longrightarrow>
      connectAgent_call s = (s\<lparr>configForm := markAllAsTouched (configForm s)\<rparr>, None) \<and>
      connectAgent ok now s = s\<lparr>configForm := markAllAsTouched (configForm s)\<rparr> \<and>
      connectionStatus (connectAgent ok now s) = connectionStatus s \<and>
      isConnecting (connectAgent ok now s) = isConnecting s \<and>
      messages (connectAgent ok now s) = messages s) \<and>
   (endpoint (form_value (configForm s)) \<noteq> [] \<and> api_key (form_value (configForm s)) \<noteq> [] \<and>
    deployment_name (form_value (configForm s)) \<noteq> [] \<and>
    api_version (form_value (configForm s)) \<noteq> [] \<longrightarrow>
      snd (connectAgent_call s) = Some (Connect (form_value (configForm s))) \<and>
      connectionStatus (connectAgent True now s) = connected \<and>
      messages (connectAgent True now s) =
        messages s @ [\<lparr>role = Model, content = None, promptContent = None,
                       ui = Some (connected_message (form_value (configForm s))),
                       timestamp = now\<rparr>] \<and>
      connectionStatus (connectAgent False now s) = error \<and>
      messages (connectAgent False now s) = messages s) \<and>
   connectionStatus (connectAgent_settled True config now s) = connected \<and>
   messages (connectAgent_settled True config now s) =
     messages s @ [\<lparr>role = Model, content = None, promptContent = None,
                    ui = Some (connected_message config), timestamp = now\<rparr>] \<and>
   connectionStatus (connectAgent_settled False config now s) = error \<and>
   messages (connectAgent_settled False config now s) = messages s"
proof -
  have cfg: "\<lparr>endpoint = endpoint v, api_key = api_key v, deployment_name = deployment_name v,
              api_version = api_version v, mcp_servers = or_str (Some (mcp_servers v)) []\<rparr> = v"
    for v :: AgentConfig
    by (simp add: or_str_def)
  show ?thesis
    by (simp add: connectAgent_call_def connectAgent_def connectAgent_settled_def invalid_def
        addSystemMessage_def Let_def cfg)
qed

theorem connectAgent_outcomes_witness:
  "endpoint (form_value (configForm
      (run type [SetConfigForm \<lparr>endpoint = [], api_key = js ''k'', deployment_name = js ''d'',
                                api_version = js ''v'', mcp_servers = []\<rparr>] (constructor 0)))) = [] \<and>
   snd (connectAgent_call
      (run type [SetConfigForm \<lparr>endpoint = [], api_key = js ''k'', deployment_name = js ''d'',
                                api_version = js ''v'', mcp_servers = []\<rparr>] (constructor 0))) = None \<and>
   connectionStatus (connectAgent True 1
      (run type [SetConfigForm \<lparr>endpoint = [], api_key = js ''k'', deployment_name = js ''d'',
                                api_version = js ''v'', mcp_servers = []\<rparr>] (constructor 0)))
     = disconnected \<and>
   connectionStatus (connectAgent True 1
      (run type [SetConfigForm \<lparr>endpoint = js ''e'', api_key = js ''k'', deployment_name = js ''d'',
                                api_version = js ''v'', mcp_servers = []\<rparr>] (constructor 0)))
     = connected \<and>
   length (messages (connectAgent True 1
      (run type [SetConfigForm \<lparr>endpoint = js ''e'', api_key = js ''k'', deployment_name = js ''d'',
                                api_version = js ''v'', mcp_servers = []\<rparr>] (constructor 0)))) = 2 \<and>
   connectionStatus (connectAgent False 1
      (run type [SetConfigForm \<lparr>endpoint = js ''e'', api_key = js ''k'', deployment_name = js ''d'',
                                api_version = js ''v'', mcp_servers = []\<rparr>] (constructor 0)))
     = error \<and>
   length (messages (connectAgent False 1
      (run type [SetConfigForm \<lparr>endpoint = js ''e'', api_key = js ''k'', deployment_name = js ''d'',
                                api_version = js ''v'', mcp_servers = []\<rparr>] (constructor 0)))) = 1"
proof -
  let ?bad = "run type [SetConfigForm \<lparr>endpoint = [], api_key = js ''k'', deployment_name = js ''d'',
                                api_version = js ''v'', mcp_servers = []\<rparr>] (constructor 0)"
  let ?good = "run type [SetConfigForm \<lparr>endpoint = js ''e'', api_key = js ''k'',
                 deployment_name = js ''d'', api_version = js ''v'', mcp_servers = []\<rparr>] (constructor 0)"
  have b: "endpoint (form_value (configForm ?bad)) = []" by (simp add: run_def)
  have bs: "connectionStatus ?bad = disconnected"
    by (simp add: run_def constructor_def addSystemMessage_def initial_def)
  have g: "endpoint (form_value (configForm ?good)) \<noteq> [] \<and>
           api_key (form_value (configForm ?good)) \<noteq> [] \<and>
           deployment_name (form_value (configForm ?good)) \<noteq> [] \<and>
           api_version (form_value (configForm ?good)) \<noteq> []"
    by (simp add: run_def js_Nil_iff)
  have gm: "length (messages ?good) = 1"
    by (simp add: run_def constructor_messages)
  show ?thesis
    using b bs g gm connectAgent_outcomes [of ?bad True 1] connectAgent_outcomes [of ?good True 1]
    by simp
qed

text \<open>
  C10. The claim that the history of the very first \<open>sendMessage\<close> has exactly one entry
  fails when a connect has succeeded before it: the acknowledgement turn is then part of the
  history. In the run below nothing is sent before the call, and the call hands over two
  entries, the greeting and the acknowledgement.
\<close>

theorem first_send_history_counterexample:
  "snd (sendMessage_call type (Some (js ''hi'')) None 2
     (run type
        [SetConfigForm \<lparr>endpoint = js ''e'', api_key = js ''k'', deployment_name = js ''d'',
                         api_version = js ''v'', mcp_servers = []\<rparr>,
         ConnectAgent,
         ConnectSettled True \<lparr>endpoint = js ''e'', api_key = js ''k'', deployment_name = js ''d'',
                               api_version = js ''v'', mcp_servers = []\<rparr> 1]
        (constructor 0)))
   = Some (GenerateResponse (js ''hi'')
       [\<lparr>entry_role = Model, parts = [\<lparr>part_text = Some (type greeting)\<rparr>]\<rparr>,
        \<lparr>entry_role = Model,
         parts = [\<lparr>part_text = Some (type (connected_message
                    \<lparr>endpoint = js ''e'', api_key = js ''k'', deployment_name = js ''d'',
                     api_version = js ''v'', mcp_servers = []\<rparr>))\<rparr>]\<rparr>])"
  by (simp add: eval_defs)

text \<open>
  C10, as the component has it. The constructor appends exactly one turn, the model turn
  holding the greeting tree; in every run the history starts with that turn, so it is never
  empty; and a \<open>sendMessage\<close> that passes its guard and comes before any other send and
  before any successful connect hands the agent client exactly one entry, the model entry
  with the JSON text of the greeting tree.
\<close>

theorem greeting_turn_first:
  "messages (constructor t0) =
     [\<lparr>role = Model, content = None, promptContent = None, ui = Some greeting, timestamp = t0\<rparr>] \<and>
   (\<exists>rest. messages (run stringify evs (constructor t0)) =
      \<lparr>role = Model, content = None, promptContent = None, ui = Some greeting, timestamp = t0\<rparr>
        # rest) \<and>
   (list_all before_first_send evs \<and>
    trim (or_str promptText (userInput (run stringify evs (constructor t0)))) \<noteq> [] \<and>
    \<not> isLoading (run stringify evs (constructor t0)) \<longrightarrow>
      snd (sendMessage_call stringify promptText displayText now (run stringify evs (constructor t0)))
        = Some (GenerateResponse (or_str promptText (userInput (run stringify evs (constructor t0))))
            [\<lparr>entry_role = Model, parts = [\<lparr>part_text = Some (stringify greeting)\<rparr>]\<rparr>]))"
proof -
  have b: "\<exists>rest. messages (run stringify evs (constructor t0)) =
      \<lparr>role = Model, content = None, promptContent = None, ui = Some greeting, timestamp = t0\<rparr>
        # rest"
    using run_messages [of stringify evs "constructor t0"] by (auto simp: constructor_messages)
  have c: "list_all before_first_send evs \<Longrightarrow> messages (run stringify evs (constructor t0)) =
     [\<lparr>role = Model, content = None, promptContent = None, ui = Some greeting, timestamp = t0\<rparr>]"
    using run_before_first_send [of evs stringify "constructor t0"]
    by (simp add: constructor_messages)
  show ?thesis using constructor_messages [of t0] b c
    by (auto simp: sendMessage_call_def Let_def history_entry_def)
qed

theorem greeting_turn_first_witness:
  "list_all before_first_send
     [SetUserInput (js ''hello''), HandleFormChange (FormChangeEvent (js ''name'') (js ''foo'') True),
      ConnectAgent, HandleUiAction (js ''open_settings'') 1] \<and>
   trim (or_str None (userInput (run type
     [SetUserInput (js ''hello''), HandleFormChange (FormChangeEvent (js ''name'') (js ''foo'') True),
      ConnectAgent, HandleUiAction (js ''open_settings'') 1] (constructor 0)))) \<noteq> [] \<and>
   \<not> isLoading (run type
     [SetUserInput (js ''hello''), HandleFormChange (FormChangeEvent (js ''name'') (js ''foo'') True),
      ConnectAgent, HandleUiAction (js ''open_settings'') 1] (constructor 0)) \<and>
   snd (sendMessage_call type None None 2 (run type
     [SetUserInput (js ''hello''), HandleFormChange (FormChangeEvent (js ''name'') (js ''foo'') True),
      ConnectAgent, HandleUiAction (js ''open_settings'') 1] (constructor 0)))
     = Some (GenerateResponse (js ''hello'')
         [\<lparr>entry_role = Model, parts = [\<lparr>part_text = Some (type greeting)\<rparr>]\<rparr>])"
proof -
  let ?evs = "[SetUserInput (js ''hello''),
               HandleFormChange (FormChangeEvent (js ''name'') (js ''foo'') True),
               ConnectAgent, HandleUiAction (js ''open_settings'') 1]"
  have h1: "list_all before_first_send ?evs" by simp
  have u: "userInput (run type ?evs (constructor 0)) = js ''hello''"
    by (simp add: eval_defs)
  have o: "or_str None (js ''hello'') = js ''hello''" by (simp add: or_str_def)
  have h2: "trim (or_str None (userInput (run type ?evs (constructor 0)))) \<noteq> []"
    unfolding u o by (simp add: js_def trim_def isWhiteSpace_def)
  have h3: "\<not> isLoading (run type ?evs (constructor 0))"
    by (simp add: eval_defs)
  show ?thesis
    using h1 h2 h3 greeting_turn_first [of 0 type ?evs None None 2]
    unfolding u o by blast
qed

text \<open>
  C2. The claim that the invalid field ids are listed in insertion order fails: they are
  listed in the order in which \<open>Object.entries\<close> enumerates the form data. Below, the field
  \<open>b\<close> is entered before the field \<open>1\<close>, both invalid; the JSON text and the warning name
  \<open>1\<close> first.
\<close>

theorem invalid_fields_order_counterexample:
  \<open>map fst (activeFormData
      (run type [HandleFormChange (FormChangeEvent (js ''b'') (js ''x'') False),
                 HandleFormChange (FormChangeEvent (js ''1'') (js ''y'') False)] (constructor 0)))
     = [js ''b'', js ''1''] \<and>
   snd (handleUiAction_body (js ''submit'')
      (run type [HandleFormChange (FormChangeEvent (js ''b'') (js ''x'') False),
                 HandleFormChange (FormChangeEvent (js ''1'') (js ''y'') False)] (constructor 0)))
     = Some (js ''User triggered action: submit.\<newline>\<newline>Submitted Form Data:\<newline>{\<newline>  "1": "y",\<newline>  "b": "x"\<newline>}\<newline>\<newline>Warning: The following fields have validation errors: 1, b'',
             js ''Triggered Action: submit (Submitted Data) '' @ [0x26A0, 0xFE0F]
               @ js '' Invalid Fields'')\<close>
  by (simp add: eval_defs)

text \<open>
  C2, as the component has it. For an action other than \<open>open_settings\<close> and form data that
  is not empty and has no field called \<open>__proto__\<close>, the prompt handed to \<open>sendMessage\<close> is
  \<open>User triggered action: {actionId}.\<close>, then the heading \<open>Submitted Form Data:\<close> and the
  pretty-printed JSON object that maps each field id to its value. The invalid field ids
  are the ids of the fields with \<open>isValid\<close> false, array-index ids first in ascending
  numeric order, then the other ids in insertion order. A warning line that lists them,
  separated by commas, ends the prompt if and only if there is one. The display text is
  \<open>Triggered Action: {actionId}\<close>, the marker \<open>(Submitted Data)\<close> and, exactly when the
  warning was added, the invalid-fields marker. The form data is cleared, and unless a send
  is in flight the agent client is called with that prompt while the appended user turn
  shows that display text.
\<close>

theorem handleUiAction_prompt_and_display:
  assumes "actionId \<noteq> js ''open_settings''"
    and "activeFormData s \<noteq> []"
    and "distinct (map fst (activeFormData s))"
    and "js ''__proto__'' \<notin> set (map fst (activeFormData s))"
  shows "\<exists>prompt display invalidIds.
     handleUiAction_body actionId s = (s\<lparr>activeFormData := []\<rparr>, Some (prompt, display)) \<and>
     invalidIds =
       enumeration_order (map fst (filter (\<lambda>p. \<not> isValid (snd p)) (activeFormData s))) \<and>
     prompt =
       js ''User triggered action: '' @ actionId @ js ''.''
       @ js ''\<newline>\<newline>Submitted Form Data:\<newline>''
       @ JSON_stringify_pretty (map (\<lambda>p. (fst p, val (snd p))) (activeFormData s))
       @ (if invalidIds \<noteq> [] then
            js ''\<newline>\<newline>Warning: The following fields have validation errors: ''
            @ join (js '', '') invalidIds
          else []) \<and>
     display =
       js ''Triggered Action: '' @ actionId @ js '' (Submitted Data)''
       @ (if invalidIds \<noteq> [] then js '' '' @ [0x26A0, 0xFE0F] @ js '' Invalid Fields'' else []) \<and>
     (\<not> isLoading s \<longrightarrow>
        handleUiAction stringify actionId now s =
          (s\<lparr>activeFormData := [],
             messages := messages s @
               [\<lparr>role = User, content = Some display, promptContent = Some prompt, ui = None,
                 timestamp = now\<rparr>],
             userInput := [], isLoading := True\<rparr>,
           Some (GenerateResponse prompt (map (history_entry stringify) (messages s)))))"
proof -
  let ?ids = "enumeration_order (map fst (filter (\<lambda>p. \<not> isValid (snd p)) (activeFormData s)))"
  let ?prompt = "js ''User triggered action: '' @ actionId @ js ''.''
       @ js ''\<newline>\<newline>Submitted Form Data:\<newline>''
       @ JSON_stringify_pretty (map (\<lambda>p. (fst p, val (snd p))) (activeFormData s))
       @ (if ?ids \<noteq> [] then
            js ''\<newline>\<newline>Warning: The following fields have validation errors: ''
            @ join (js '', '') ?ids
          else [])"
  let ?display = "js ''Triggered Action: '' @ actionId @ js '' (Submitted Data)''
       @ (if ?ids \<noteq> [] then js '' '' @ [0x26A0, 0xFE0F] @ js '' Invalid Fields'' else [])"
  have body: "handleUiAction_body actionId s =
      (s\<lparr>activeFormData := []\<rparr>, Some (?prompt, ?display))"
    using assms(1,2)
    by (simp add: handleUiAction_body_def Let_def Object_keys_empty
        values_of_form [OF assms(3,4)] filtered_keys_order)
  have pt: "trim ?prompt \<noteq> []"
    unfolding append_assoc by (rule prompt_not_blank)
  have dn: "?display \<noteq> []"
    unfolding append_assoc by (rule display_not_empty)
  have send: "\<not> isLoading s \<Longrightarrow>
      sendMessage_call stringify (Some ?prompt) (Some ?display) now (s\<lparr>activeFormData := []\<rparr>) =
        (s\<lparr>activeFormData := [],
           messages := messages s @
             [\<lparr>role = User, content = Some ?display, promptContent = Some ?prompt, ui = None,
               timestamp = now\<rparr>],
           userInput := [], isLoading := True\<rparr>,
         Some (GenerateResponse ?prompt (map (history_entry stringify) (messages s))))"
    using sendMessage_call_passes [OF pt dn, of "s\<lparr>activeFormData := []\<rparr>" stringify now]
    by simp
  have "\<not> isLoading s \<longrightarrow>
        handleUiAction stringify actionId now s =
          (s\<lparr>activeFormData := [],
             messages := messages s @
               [\<lparr>role = User, content = Some ?display, promptContent = Some ?prompt, ui = None,
                 timestamp = now\<rparr>],
             userInput := [], isLoading := True\<rparr>,
           Some (GenerateResponse ?prompt (map (history_entry stringify) (messages s))))"
    using send by (simp add: handleUiAction_def body)
  with body show ?thesis by blast
qed

theorem handleUiAction_prompt_and_display_witness:
  \<open>js ''submit_order'' \<noteq> js ''open_settings'' \<and>
   activeFormData (run type
      [HandleFormChange (FormChangeEvent (js ''name'') (js ''foo'') True),
       HandleFormChange (FormChangeEvent (js ''email'') (js ''bad'') False)] (constructor 0)) =
     [(js ''name'', \<lparr>val = js ''foo'', isValid = True\<rparr>),
      (js ''email'', \<lparr>val = js ''bad'', isValid = False\<rparr>)] \<and>
   snd (handleUiAction_body (js ''submit_order'') (run type
      [HandleFormChange (FormChangeEvent (js ''name'') (js ''foo'') True),
       HandleFormChange (FormChangeEvent (js ''email'') (js ''bad'') False)] (constructor 0))) =
     Some (js ''User triggered action: submit_order.\<newline>\<newline>Submitted Form Data:\<newline>{\<newline>  "name": "foo",\<newline>  "email": "bad"\<newline>}\<newline>\<newline>Warning: The following fields have validation errors: email'',
           js ''Triggered Action: submit_order (Submitted Data) '' @ [0x26A0, 0xFE0F]
             @ js '' Invalid Fields'')\<close>
proof -
  let ?s = "run type
      [HandleFormChange (FormChangeEvent (js ''name'') (js ''foo'') True),
       HandleFormChange (FormChangeEvent (js ''email'') (js ''bad'') False)] (constructor 0)"
  have fd: "activeFormData ?s =
     [(js ''name'', \<lparr>val = js ''foo'', isValid = True\<rparr>),
      (js ''email'', \<lparr>val = js ''bad'', isValid = False\<rparr>)]"
    by (simp add: run_def handleFormChange_def spread_def Object_entries_def constructor_def
        addSystemMessage_def initial_def isArrayIndex_def isDigit_def js_def)
  have h1: "js ''submit_order'' \<noteq> js ''open_settings''" by (simp add: js_eq_iff)
  have h2: "activeFormData ?s \<noteq> []" unfolding fd by simp
  have h3: "distinct (map fst (activeFormData ?s))" unfolding fd by (simp add: js_eq_iff)
  have h4: "js ''__proto__'' \<notin> set (map fst (activeFormData ?s))"
    unfolding fd by (simp add: js_eq_iff)
  from handleUiAction_prompt_and_display [OF h1 h2 h3 h4, of type 1]
  obtain prompt display invalidIds where
    r: "handleUiAction_body (js ''submit_order'') ?s =
          (?s\<lparr>activeFormData := []\<rparr>, Some (prompt, display))" and
    i: "invalidIds =
          enumeration_order (map fst (filter (\<lambda>p. \<not> isValid (snd p)) (activeFormData ?s)))" and
    p: "prompt =
       js ''User triggered action: '' @ js ''submit_order'' @ js ''.''
       @ js ''\<newline>\<newline>Submitted Form Data:\<newline>''
       @ JSON_stringify_pretty (map (\<lambda>p. (fst p, val (snd p))) (activeFormData ?s))
       @ (if invalidIds \<noteq> [] then
            js ''\<newline>\<newline>Warning: The following fields have validation errors: ''
            @ join (js '', '') invalidIds
          else [])" and
    d: "display =
       js ''Triggered Action: '' @ js ''submit_order'' @ js '' (Submitted Data)''
       @ (if invalidIds \<noteq> [] then js '' '' @ [0x26A0, 0xFE0F] @ js '' Invalid Fields'' else [])"
    by blast
  have i': "invalidIds = [js ''email'']"
    unfolding i fd by (simp add: enumeration_order_def isArrayIndex_def isDigit_def js_def)
  have p': \<open>prompt = js ''User triggered action: submit_order.\<newline>\<newline>Submitted Form Data:\<newline>{\<newline>  "name": "foo",\<newline>  "email": "bad"\<newline>}\<newline>\<newline>Warning: The following fields have validation errors: email''\<close>
    unfolding p i' fd by (simp add: eval_defs)
  have d': "display = js ''Triggered Action: submit_order (Submitted Data) '' @ [0x26A0, 0xFE0F]
             @ js '' Invalid Fields''"
    unfolding d i' by (simp add: js_def)
  show ?thesis using h1 fd r p' d' by simp
qed

text \<open>
  Why the field \<open>__proto__\<close> is excluded above: the assignment that copies its value into
  \<open>values\<close> creates no property, so the JSON text does not mention the field.
\<close>

lemma handleUiAction_proto_field:
  \<open>snd (handleUiAction_body (js ''submit'')
      (run type [HandleFormChange (FormChangeEvent (js ''__proto__'') (js ''x'') True)]
         (constructor 0)))
     = Some (js ''User triggered action: submit.\<newline>\<newline>Submitted Form Data:\<newline>{}'',
             js ''Triggered Action: submit (Submitted Data)'')\<close>
  by (simp add: eval_defs)

end
